theory Spec2Isabelle
  imports Main "HOL-Library.Char_ord"
begin

section \<open>Bytes, library errors and archive entries\<close>

text \<open>
  Go's \<^verbatim>\<open>string\<close> and \<^verbatim>\<open>[]byte\<close> are both sequences of bytes; both are modelled
  as \<^typ>\<open>string\<close> (a list of 8-bit characters).
\<close>

type_synonym bytes = string

text \<open>An error value produced by a library (\<^verbatim>\<open>archive/zip\<close>, \<^verbatim>\<open>io\<close>, the remote API), carrying its message.\<close>

datatype go_error = GoError string

text \<open>
  An \<^verbatim>\<open>io.Reader\<close> over an archive entry: the bytes it delivers, and how the stream
  ends: \<open>None\<close> for a clean \<^verbatim>\<open>io.EOF\<close>, \<open>Some e\<close> for a read error \<open>e\<close> (for
  instance a checksum mismatch, which the zip reader reports after the last byte).
\<close>

type_synonym stream = "bytes \<times> go_error option"

text \<open>
  \<^verbatim>\<open>zip.File\<close>, as far as the program looks at it. \<open>Name\<close> is the entry's name as
  stored in the archive. \<open>ModeDir\<close> is the directory bit that \<^verbatim>\<open>FileHeader.Mode\<close>
  derives from the external attributes of the entry (Unix \<^verbatim>\<open>S_IFDIR\<close>, MS-DOS
  directory attribute). \<open>Open\<close> is the outcome of \<^verbatim>\<open>f.Open()\<close>.
\<close>

record zfile =
  Name :: string
  ModeDir :: bool
  Open :: "go_error + stream"

text \<open>
  \<^verbatim>\<open>f.FileInfo().IsDir()\<close>: \<^verbatim>\<open>Mode()\<close> takes the directory bit from the external
  attributes and also sets it for every name that ends in a slash.
\<close>

definition IsDir :: "zfile \<Rightarrow> bool" where
  "IsDir f = (ModeDir f \<or> (Name f \<noteq> [] \<and> last (Name f) = CHR ''/''))"

text \<open>\<^verbatim>\<open>io.ReadAll\<close>: the data when the stream ends cleanly, the error otherwise.\<close>

definition io_ReadAll :: "stream \<Rightarrow> go_error + bytes" where
  "io_ReadAll rc = (case snd rc of None \<Rightarrow> Inr (fst rc) | Some e \<Rightarrow> Inl e)"

text \<open>\<^verbatim>\<open>strings.HasSuffix\<close>: \<^verbatim>\<open>len(s) >= len(suffix) && s[len(s)-len(suffix):] == suffix\<close>.\<close>

definition HasSuffix :: "string \<Rightarrow> string \<Rightarrow> bool" where
  "HasSuffix s suffix =
     (length s \<ge> length suffix \<and> drop (length s - length suffix) s = suffix)"

text \<open>
  \<^verbatim>\<open>zip.NewReader\<close> is taken as a parameter of the functions below: it maps a byte
  buffer to the entries of the archive in the order of its central directory, or fails.
\<close>

type_synonym zip_reader = "bytes \<Rightarrow> go_error + zfile list"

section \<open>\<^verbatim>\<open>path/filepath.Base\<close>\<close>

text \<open>
  \<^verbatim>\<open>filepath.Base\<close> depends on the operating system the program is built for:
  \<^verbatim>\<open>os.IsPathSeparator\<close> accepts only the slash on Unix and both the slash and the
  backslash on Windows, and on Windows a leading volume name is dropped.
\<close>

datatype GOOS = Unix | Windows

abbreviation backslash :: char where
  "backslash \<equiv> CHR 0x5C"

fun IsPathSeparator :: "GOOS \<Rightarrow> char \<Rightarrow> bool" where
  "IsPathSeparator Unix c = (c = CHR ''/'')"
| "IsPathSeparator Windows c = (c = CHR ''/'' \<or> c = backslash)"

fun Separator :: "GOOS \<Rightarrow> char" where
  "Separator Unix = CHR ''/''"
| "Separator Windows = backslash"

text \<open>\<^verbatim>\<open>cutPath\<close> (Windows): slice the path around its first separator.\<close>

fun cutPath :: "string \<Rightarrow> string \<times> string \<times> bool" where
  "cutPath [] = ([], [], False)"
| "cutPath (c # cs) =
     (if IsPathSeparator Windows c then ([], cs, True)
      else (case cutPath cs of (before, after, found) \<Rightarrow> (c # before, after, found)))"

definition isLetter :: "char \<Rightarrow> bool" where
  "isLetter c = ((CHR ''a'' \<le> c \<and> c \<le> CHR ''z'') \<or> (CHR ''A'' \<le> c \<and> c \<le> CHR ''Z''))"

definition toUpper :: "char \<Rightarrow> char" where
  "toUpper c = (if CHR ''a'' \<le> c \<and> c \<le> CHR ''z'' then char_of (of_char c - (32::nat)) else c)"

text \<open>
  \<^verbatim>\<open>volumeNameLen\<close>: always 0 on Unix. On Windows: 2 for a drive letter and a colon;
  for a path that starts with two separators the length of the UNC or DOS device prefix.
\<close>

fun volumeNameLen :: "GOOS \<Rightarrow> string \<Rightarrow> nat" where
  "volumeNameLen Unix path = 0"
| "volumeNameLen Windows (c0 # c1 # rest) =
     (if c1 = CHR '':'' \<and> isLetter c0 then 2
      else if \<not> IsPathSeparator Windows c0 \<or> \<not> IsPathSeparator Windows c1 then 0
      else (case cutPath rest of (p1, rest1, _) \<Rightarrow>
        (case cutPath rest1 of (p2, rest2, ok) \<Rightarrow>
          if \<not> ok then length (c0 # c1 # rest)
          else if p1 \<noteq> ''.'' \<and> p1 \<noteq> ''?'' then length (c0 # c1 # rest) - length rest2 - 1
          else if map toUpper p2 = ''UNC'' then
            (case cutPath rest2 of (_, rest3, _) \<Rightarrow>
              (case cutPath rest3 of (_, rest4, ok') \<Rightarrow>
                 if \<not> ok' then length (c0 # c1 # rest)
                 else length (c0 # c1 # rest) - length rest4 - 1))
          else length (c0 # c1 # rest) - length rest2 - 1)))"
| "volumeNameLen Windows path = 0"

text \<open>
  \<^verbatim>\<open>filepath.Base\<close>: the empty path gives \<^verbatim>\<open>"."\<close>; trailing separators are stripped,
  the volume name is dropped, and what follows the last separator is returned; a path of
  separators only gives the separator.
\<close>

definition filepath_Base :: "GOOS \<Rightarrow> string \<Rightarrow> string" where
  "filepath_Base goos path =
     (if path = [] then ''.''
      else
        let p1 = rev (dropWhile (IsPathSeparator goos) (rev path));
            p2 = drop (volumeNameLen goos p1) p1;
            p3 = rev (takeWhile (\<lambda>c. \<not> IsPathSeparator goos c) (rev p2))
        in if p3 = [] then [Separator goos] else p3)"

section \<open>\<^verbatim>\<open>encoding/json\<close>: the scanner\<close>

text \<open>
  The program decodes the metadata with \<^verbatim>\<open>json.NewDecoder(rc).Decode(&mod)\<close>. The
  decoder finds the end of the first JSON value of the stream with the state machine of
  \<^verbatim>\<open>scanner.go\<close>, which is modelled state by state. Each state is a constructor of
  \<open>scan_state\<close>; \<open>parseState\<close> is the stack of open objects and arrays (the innermost
  first).
\<close>

datatype parse_state = parseObjectKey | parseObjectValue | parseArrayValue

datatype scan_state =
    stateBeginValueOrEmpty | stateBeginValue | stateBeginStringOrEmpty | stateBeginString
  | stateEndValue | stateEndTop
  | stateInString | stateInStringEsc
  | stateInStringEscU | stateInStringEscU1 | stateInStringEscU12 | stateInStringEscU123
  | stateNeg | state1 | state0 | stateDot | stateDot0 | stateE | stateESign | stateE0
  | stateT | stateTr | stateTru
  | stateF | stateFa | stateFal | stateFals
  | stateN | stateNu | stateNul
  | stateError

datatype opcode =
    scanContinue | scanBeginLiteral | scanBeginObject | scanObjectKey | scanObjectValue
  | scanEndObject | scanBeginArray | scanArrayValue | scanEndArray | scanSkipSpace
  | scanEnd | scanError

record scanner =
  step :: scan_state
  parseState :: "parse_state list"

definition maxNestingDepth :: nat where
  "maxNestingDepth = 10000"

text \<open>\<^verbatim>\<open>scanner.reset\<close>.\<close>

definition scanner_reset :: scanner where
  "scanner_reset = \<lparr>step = stateBeginValue, parseState = []\<rparr>"

definition isSpace :: "char \<Rightarrow> bool" where
  "isSpace c = (c = CHR '' '' \<or> c = CHR 0x09 \<or> c = CHR 0x0D \<or> c = CHR 0x0A)"

definition isDigit :: "char \<Rightarrow> bool" where
  "isDigit c = (CHR ''0'' \<le> c \<and> c \<le> CHR ''9'')"

definition isHex :: "char \<Rightarrow> bool" where
  "isHex c = (isDigit c \<or> (CHR ''a'' \<le> c \<and> c \<le> CHR ''f'') \<or> (CHR ''A'' \<le> c \<and> c \<le> CHR ''F''))"

text \<open>\<^verbatim>\<open>scanner.error\<close>: the scanner stops in \<open>stateError\<close>.\<close>

definition scanner_error :: "scanner \<Rightarrow> scanner \<times> opcode" where
  "scanner_error s = (s\<lparr>step := stateError\<rparr>, scanError)"

text \<open>\<^verbatim>\<open>pushParseState\<close>: an error when the nesting exceeds \<open>maxNestingDepth\<close>.\<close>

definition pushParseState :: "scanner \<Rightarrow> parse_state \<Rightarrow> opcode \<Rightarrow> scanner \<times> opcode" where
  "pushParseState s newParseState successState =
     (let s' = s\<lparr>parseState := newParseState # parseState s\<rparr>
      in if length (parseState s') \<le> maxNestingDepth then (s', successState)
         else scanner_error s')"

text \<open>\<^verbatim>\<open>popParseState\<close>.\<close>

definition popParseState :: "scanner \<Rightarrow> scanner" where
  "popParseState s =
     (let ps = tl (parseState s)
      in s\<lparr>parseState := ps, step := (if ps = [] then stateEndTop else stateEndValue)\<rparr>)"

text \<open>
  \<^verbatim>\<open>stateEndTop\<close>: a byte that is not a space after the top-level value is recorded as
  an error for the next call, and \<open>scanEnd\<close> is returned all the same.
\<close>

definition stateEndTop_step :: "scanner \<Rightarrow> char \<Rightarrow> scanner \<times> opcode" where
  "stateEndTop_step s c =
     (if \<not> isSpace c then (s\<lparr>step := stateError\<rparr>, scanEnd) else (s, scanEnd))"

definition stateEndValue_step :: "scanner \<Rightarrow> char \<Rightarrow> scanner \<times> opcode" where
  "stateEndValue_step s c =
     (case parseState s of
        [] \<Rightarrow> stateEndTop_step (s\<lparr>step := stateEndTop\<rparr>) c
      | ps # pss \<Rightarrow>
          if isSpace c then (s\<lparr>step := stateEndValue\<rparr>, scanSkipSpace)
          else (case ps of
             parseObjectKey \<Rightarrow>
               if c = CHR '':'' then
                 (s\<lparr>parseState := parseObjectValue # pss, step := stateBeginValue\<rparr>, scanObjectKey)
               else scanner_error s
           | parseObjectValue \<Rightarrow>
               if c = CHR '','' then
                 (s\<lparr>parseState := parseObjectKey # pss, step := stateBeginString\<rparr>, scanObjectValue)
               else if c = CHR ''}'' then (popParseState s, scanEndObject)
               else scanner_error s
           | parseArrayValue \<Rightarrow>
               if c = CHR '','' then (s\<lparr>step := stateBeginValue\<rparr>, scanArrayValue)
               else if c = CHR '']'' then (popParseState s, scanEndArray)
               else scanner_error s))"

definition stateBeginValue_step :: "scanner \<Rightarrow> char \<Rightarrow> scanner \<times> opcode" where
  "stateBeginValue_step s c =
     (if isSpace c then (s, scanSkipSpace)
      else if c = CHR ''{'' then
        pushParseState (s\<lparr>step := stateBeginStringOrEmpty\<rparr>) parseObjectKey scanBeginObject
      else if c = CHR ''['' then
        pushParseState (s\<lparr>step := stateBeginValueOrEmpty\<rparr>) parseArrayValue scanBeginArray
      else if c = CHR 0x22 then (s\<lparr>step := stateInString\<rparr>, scanBeginLiteral)
      else if c = CHR ''-'' then (s\<lparr>step := stateNeg\<rparr>, scanBeginLiteral)
      else if c = CHR ''0'' then (s\<lparr>step := state0\<rparr>, scanBeginLiteral)
      else if c = CHR ''t'' then (s\<lparr>step := stateT\<rparr>, scanBeginLiteral)
      else if c = CHR ''f'' then (s\<lparr>step := stateF\<rparr>, scanBeginLiteral)
      else if c = CHR ''n'' then (s\<lparr>step := stateN\<rparr>, scanBeginLiteral)
      else if CHR ''1'' \<le> c \<and> c \<le> CHR ''9'' then (s\<lparr>step := state1\<rparr>, scanBeginLiteral)
      else scanner_error s)"

definition stateBeginString_step :: "scanner \<Rightarrow> char \<Rightarrow> scanner \<times> opcode" where
  "stateBeginString_step s c =
     (if isSpace c then (s, scanSkipSpace)
      else if c = CHR 0x22 then (s\<lparr>step := stateInString\<rparr>, scanBeginLiteral)
      else scanner_error s)"

definition stateESign_step :: "scanner \<Rightarrow> char \<Rightarrow> scanner \<times> opcode" where
  "stateESign_step s c =
     (if isDigit c then (s\<lparr>step := stateE0\<rparr>, scanContinue) else scanner_error s)"

definition state0_step :: "scanner \<Rightarrow> char \<Rightarrow> scanner \<times> opcode" where
  "state0_step s c =
     (if c = CHR ''.'' then (s\<lparr>step := stateDot\<rparr>, scanContinue)
      else if c = CHR ''e'' \<or> c = CHR ''E'' then (s\<lparr>step := stateE\<rparr>, scanContinue)
      else stateEndValue_step s c)"

text \<open>A state of a literal \<^verbatim>\<open>true\<close>, \<^verbatim>\<open>false\<close>, \<^verbatim>\<open>null\<close>: the one byte it accepts.\<close>

definition literal_step :: "scanner \<Rightarrow> char \<Rightarrow> char \<Rightarrow> scan_state \<Rightarrow> scanner \<times> opcode" where
  "literal_step s c expected next =
     (if c = expected then (s\<lparr>step := next\<rparr>, scanContinue) else scanner_error s)"

definition hex_step :: "scanner \<Rightarrow> char \<Rightarrow> scan_state \<Rightarrow> scanner \<times> opcode" where
  "hex_step s c next =
     (if isHex c then (s\<lparr>step := next\<rparr>, scanContinue) else scanner_error s)"

text \<open>\<^verbatim>\<open>s.step(s, c)\<close>: one byte through the state machine.\<close>

definition scan_step :: "scanner \<Rightarrow> char \<Rightarrow> scanner \<times> opcode" where
  "scan_step s c =
     (case step s of
        stateBeginValueOrEmpty \<Rightarrow>
          if isSpace c then (s, scanSkipSpace)
          else if c = CHR '']'' then stateEndValue_step s c
          else stateBeginValue_step s c
      | stateBeginValue \<Rightarrow> stateBeginValue_step s c
      | stateBeginStringOrEmpty \<Rightarrow>
          if isSpace c then (s, scanSkipSpace)
          else if c = CHR ''}'' then
            stateEndValue_step (s\<lparr>parseState := parseObjectValue # tl (parseState s)\<rparr>) c
          else stateBeginString_step s c
      | stateBeginString \<Rightarrow> stateBeginString_step s c
      | stateEndValue \<Rightarrow> stateEndValue_step s c
      | stateEndTop \<Rightarrow> stateEndTop_step s c
      | stateInString \<Rightarrow>
          if c = CHR 0x22 then (s\<lparr>step := stateEndValue\<rparr>, scanContinue)
          else if c = backslash then (s\<lparr>step := stateInStringEsc\<rparr>, scanContinue)
          else if c < CHR 0x20 then scanner_error s
          else (s, scanContinue)
      | stateInStringEsc \<Rightarrow>
          if c \<in> set ''bfnrt'' \<or> c = backslash \<or> c = CHR ''/'' \<or> c = CHR 0x22 then
            (s\<lparr>step := stateInString\<rparr>, scanContinue)
          else if c = CHR ''u'' then (s\<lparr>step := stateInStringEscU\<rparr>, scanContinue)
          else scanner_error s
      | stateInStringEscU \<Rightarrow> hex_step s c stateInStringEscU1
      | stateInStringEscU1 \<Rightarrow> hex_step s c stateInStringEscU12
      | stateInStringEscU12 \<Rightarrow> hex_step s c stateInStringEscU123
      | stateInStringEscU123 \<Rightarrow> hex_step s c stateInString
      | stateNeg \<Rightarrow>
          if c = CHR ''0'' then (s\<lparr>step := state0\<rparr>, scanContinue)
          else if CHR ''1'' \<le> c \<and> c \<le> CHR ''9'' then (s\<lparr>step := state1\<rparr>, scanContinue)
          else scanner_error s
      | state1 \<Rightarrow>
          if isDigit c then (s\<lparr>step := state1\<rparr>, scanContinue) else state0_step s c
      | state0 \<Rightarrow> state0_step s c
      | stateDot \<Rightarrow>
          if isDigit c then (s\<lparr>step := stateDot0\<rparr>, scanContinue) else scanner_error s
      | stateDot0 \<Rightarrow>
          if isDigit c then (s, scanContinue)
          else if c = CHR ''e'' \<or> c = CHR ''E'' then (s\<lparr>step := stateE\<rparr>, scanContinue)
          else stateEndValue_step s c
      | stateE \<Rightarrow>
          if c = CHR ''+'' \<or> c = CHR ''-'' then (s\<lparr>step := stateESign\<rparr>, scanContinue)
          else stateESign_step s c
      | stateESign \<Rightarrow> stateESign_step s c
      | stateE0 \<Rightarrow> if isDigit c then (s, scanContinue) else stateEndValue_step s c
      | stateT \<Rightarrow> literal_step s c CHR ''r'' stateTr
      | stateTr \<Rightarrow> literal_step s c CHR ''u'' stateTru
      | stateTru \<Rightarrow> literal_step s c CHR ''e'' stateEndValue
      | stateF \<Rightarrow> literal_step s c CHR ''a'' stateFa
      | stateFa \<Rightarrow> literal_step s c CHR ''l'' stateFal
      | stateFal \<Rightarrow> literal_step s c CHR ''s'' stateFals
      | stateFals \<Rightarrow> literal_step s c CHR ''e'' stateEndValue
      | stateN \<Rightarrow> literal_step s c CHR ''u'' stateNu
      | stateNu \<Rightarrow> literal_step s c CHR ''l'' stateNul
      | stateNul \<Rightarrow> literal_step s c CHR ''l'' stateEndValue
      | stateError \<Rightarrow> (s, scanError))"

section \<open>\<^verbatim>\<open>encoding/json\<close>: reading the first value of a stream\<close>

datatype decode_error =
    SyntaxError
  | ErrUnexpectedEOF
  | EOF
  | ReadError go_error
  | UnmarshalTypeError string
  | PhasePanic

fun nonSpace :: "bytes \<Rightarrow> bool" where
  "nonSpace [] = False"
| "nonSpace (c # cs) = (if isSpace c then nonSpace cs else True)"

text \<open>
  \<^verbatim>\<open>Decoder.readValue\<close>: the bytes of the stream go through the scanner until the
  first value is complete. \<open>scanEnd\<close> arrives one byte late for a number or a literal;
  for a closing brace or bracket the decoder asks the scanner, with an invented space,
  whether the top-level value is complete. When the bytes run out, a clean end of stream
  completes a pending number or literal and is an error otherwise; a read error of the
  stream is returned as it is. The result is the bytes of the value, leading spaces
  included.
\<close>

fun readValue_loop :: "scanner \<Rightarrow> bytes \<Rightarrow> bytes \<Rightarrow> go_error option \<Rightarrow> decode_error + bytes" where
  "readValue_loop s scanned [] ending =
     (case ending of
        Some err \<Rightarrow> Inl (ReadError err)
      | None \<Rightarrow>
          if snd (scan_step s CHR '' '') = scanEnd then Inr scanned
          else if nonSpace scanned then Inl ErrUnexpectedEOF
          else Inl EOF)"
| "readValue_loop s scanned (c # cs) ending =
     (case scan_step s c of (s', op) \<Rightarrow>
        if op = scanEnd then Inr scanned
        else if op = scanEndObject \<or> op = scanEndArray then
          (case stateEndValue_step s' CHR '' '' of (s'', op') \<Rightarrow>
             if op' = scanEnd then Inr (scanned @ [c])
             else readValue_loop s'' (scanned @ [c]) cs ending)
        else if op = scanError then Inl SyntaxError
        else readValue_loop s' (scanned @ [c]) cs ending)"

definition readValue :: "stream \<Rightarrow> decode_error + bytes" where
  "readValue rc = readValue_loop scanner_reset [] (fst rc) (snd rc)"

text \<open>
  \<^verbatim>\<open>json.Valid\<close> (\<^verbatim>\<open>checkValid\<close> and \<^verbatim>\<open>scanner.eof\<close>): the whole input is one JSON
  value, with nothing but spaces around it.
\<close>

fun checkValid_loop :: "scanner \<Rightarrow> bytes \<Rightarrow> scanner option" where
  "checkValid_loop s [] = Some s"
| "checkValid_loop s (c # cs) =
     (case scan_step s c of (s', op) \<Rightarrow>
        if op = scanError then None else checkValid_loop s' cs)"

definition scanner_eof :: "scanner \<Rightarrow> bool" where
  "scanner_eof s =
     (if step s = stateError then False
      else if step s = stateEndTop then True
      else step (fst (scan_step s CHR '' '')) = stateEndTop)"

definition json_Valid :: "bytes \<Rightarrow> bool" where
  "json_Valid data =
     (case checkValid_loop scanner_reset data of None \<Rightarrow> False | Some s \<Rightarrow> scanner_eof s)"

section \<open>\<^verbatim>\<open>encoding/json\<close>: string literals\<close>

abbreviation byte :: "char \<Rightarrow> nat" where
  "byte c \<equiv> of_char c"

definition isCont :: "char \<Rightarrow> bool" where
  "isCont c = (0x80 \<le> byte c \<and> byte c \<le> 0xBF)"

text \<open>
  \<^verbatim>\<open>utf8.DecodeRune\<close>, as far as the decoder needs it: the length of the well-formed
  UTF-8 sequence at the head of the bytes, and 0 when there is none (the library then
  returns \<^verbatim>\<open>RuneError\<close> with width 1).
\<close>

fun utf8_width :: "bytes \<Rightarrow> nat" where
  "utf8_width [] = 0"
| "utf8_width (c0 # rest) =
     (let x = byte c0 in
      if x < 0x80 then 1
      else if 0xC2 \<le> x \<and> x \<le> 0xDF then
        (case rest of c1 # _ \<Rightarrow> if isCont c1 then 2 else 0 | _ \<Rightarrow> 0)
      else if 0xE0 \<le> x \<and> x \<le> 0xEF then
        (case rest of
           c1 # c2 # _ \<Rightarrow>
             if (if x = 0xE0 then 0xA0 else 0x80) \<le> byte c1
                \<and> byte c1 \<le> (if x = 0xED then 0x9F else 0xBF) \<and> isCont c2
             then 3 else 0
         | _ \<Rightarrow> 0)
      else if 0xF0 \<le> x \<and> x \<le> 0xF4 then
        (case rest of
           c1 # c2 # c3 # _ \<Rightarrow>
             if (if x = 0xF0 then 0x90 else 0x80) \<le> byte c1
                \<and> byte c1 \<le> (if x = 0xF4 then 0x8F else 0xBF) \<and> isCont c2 \<and> isCont c3
             then 4 else 0
         | _ \<Rightarrow> 0)
      else 0)"

text \<open>The UTF-8 encoding of \<^verbatim>\<open>utf8.RuneError\<close>, U+FFFD.\<close>

definition RuneError_bytes :: bytes where
  "RuneError_bytes = [CHR 0xEF, CHR 0xBF, CHR 0xBD]"

text \<open>\<^verbatim>\<open>utf8.EncodeRune\<close>; a surrogate or a value beyond U+10FFFF is encoded as U+FFFD.\<close>

definition EncodeRune :: "nat \<Rightarrow> bytes" where
  "EncodeRune r =
     (if r \<le> 0x7F then [char_of r]
      else if r \<le> 0x7FF then [char_of (0xC0 + r div 64), char_of (0x80 + r mod 64)]
      else if r > 0x10FFFF \<or> (0xD800 \<le> r \<and> r \<le> 0xDFFF) then RuneError_bytes
      else if r \<le> 0xFFFF then
        [char_of (0xE0 + r div 4096), char_of (0x80 + (r div 64) mod 64), char_of (0x80 + r mod 64)]
      else
        [char_of (0xF0 + r div 262144), char_of (0x80 + (r div 4096) mod 64),
         char_of (0x80 + (r div 64) mod 64), char_of (0x80 + r mod 64)])"

definition hexval :: "char \<Rightarrow> nat option" where
  "hexval c =
     (if isDigit c then Some (byte c - byte CHR ''0'')
      else if CHR ''a'' \<le> c \<and> c \<le> CHR ''f'' then Some (byte c - byte CHR ''a'' + 10)
      else if CHR ''A'' \<le> c \<and> c \<le> CHR ''F'' then Some (byte c - byte CHR ''A'' + 10)
      else None)"

text \<open>\<^verbatim>\<open>getu4\<close>: the value of a \<^verbatim>\<open>\uXXXX\<close> escape at the head of the bytes, if there is one.\<close>

fun getu4 :: "bytes \<Rightarrow> nat option" where
  "getu4 (b # u # h1 # h2 # h3 # h4 # rest) =
     (if b \<noteq> backslash \<or> u \<noteq> CHR ''u'' then None
      else (case (hexval h1, hexval h2, hexval h3, hexval h4) of
              (Some a, Some b, Some c, Some d) \<Rightarrow> Some (((a * 16 + b) * 16 + c) * 16 + d)
            | _ \<Rightarrow> None))"
| "getu4 s = None"

text \<open>\<^verbatim>\<open>utf16.DecodeRune\<close>: the code point of a surrogate pair, U+FFFD for anything else.\<close>

definition utf16_DecodeRune :: "nat \<Rightarrow> nat option \<Rightarrow> nat" where
  "utf16_DecodeRune r1 r2 =
     (case r2 of
        Some r2' \<Rightarrow>
          if 0xD800 \<le> r1 \<and> r1 < 0xDC00 \<and> 0xDC00 \<le> r2' \<and> r2' < 0xE000
          then (r1 - 0xD800) * 1024 + (r2' - 0xDC00) + 0x10000
          else 0xFFFD
      | None \<Rightarrow> 0xFFFD)"

text \<open>
  The loop of \<^verbatim>\<open>unquoteBytes\<close> over the inside of a string literal: escapes are
  replaced, \<^verbatim>\<open>\uXXXX\<close> escapes (and surrogate pairs of them) become UTF-8, bytes that are
  not well-formed UTF-8 become U+FFFD; \<open>None\<close> where the library reports \<^verbatim>\<open>ok = false\<close>.
\<close>

fun unquote_loop :: "bytes \<Rightarrow> bytes option" where
  "unquote_loop [] = Some []"
| "unquote_loop (c # rest) =
     (if c = backslash then
        (case rest of
           [] \<Rightarrow> None
         | e # rest' \<Rightarrow>
             if e = CHR 0x22 \<or> e = backslash \<or> e = CHR ''/'' \<or> e = CHR 0x27 then
               map_option ((#) e) (unquote_loop rest')
             else if e = CHR ''b'' then map_option ((#) (CHR 0x08)) (unquote_loop rest')
             else if e = CHR ''f'' then map_option ((#) (CHR 0x0C)) (unquote_loop rest')
             else if e = CHR ''n'' then map_option ((#) (CHR 0x0A)) (unquote_loop rest')
             else if e = CHR ''r'' then map_option ((#) (CHR 0x0D)) (unquote_loop rest')
             else if e = CHR ''t'' then map_option ((#) (CHR 0x09)) (unquote_loop rest')
             else if e = CHR ''u'' then
               (case getu4 (c # rest) of
                  None \<Rightarrow> None
                | Some rr \<Rightarrow>
                    if 0xD800 \<le> rr \<and> rr < 0xE000 then
                      (let dec = utf16_DecodeRune rr (getu4 (drop 4 rest')) in
                       if dec \<noteq> 0xFFFD then
                         map_option ((@) (EncodeRune dec)) (unquote_loop (drop 10 rest'))
                       else map_option ((@) (EncodeRune 0xFFFD)) (unquote_loop (drop 4 rest')))
                    else map_option ((@) (EncodeRune rr)) (unquote_loop (drop 4 rest')))
             else None)
      else if c = CHR 0x22 \<or> c < CHR 0x20 then None
      else if byte c < 0x80 then map_option ((#) c) (unquote_loop rest)
      else
        (let n = utf8_width (c # rest) in
         if n = 0 then map_option ((@) RuneError_bytes) (unquote_loop rest)
         else map_option ((@) (take n (c # rest))) (unquote_loop (drop (n - 1) rest))))"

text \<open>\<^verbatim>\<open>unquoteBytes\<close>: the literal must start and end with a double quote.\<close>

definition unquoteBytes :: "bytes \<Rightarrow> bytes option" where
  "unquoteBytes s =
     (if length s < 2 \<or> hd s \<noteq> CHR 0x22 \<or> last s \<noteq> CHR 0x22 then None
      else unquote_loop (butlast (tl s)))"

section \<open>\<^verbatim>\<open>encoding/json\<close>: decoding into \<^verbatim>\<open>ModJSON\<close>\<close>

text \<open>\<^verbatim>\<open>type ModJSON struct { Version string `json:"version"` }\<close>\<close>

record ModJSON =
  Version :: string

text \<open>
  \<^verbatim>\<open>foldName\<close>: the case folding under which an object key is compared with a field
  name when no field has exactly the key as its name. ASCII letters fold to upper case;
  the two runes outside ASCII whose simple case folding reaches an ASCII letter do too
  (U+017F, the long s, to \<open>S\<close>; U+212A, the Kelvin sign, to \<open>K\<close>). Every other rune
  outside ASCII folds to a rune outside ASCII; the model leaves its bytes as they are,
  which decides the comparison with an ASCII field name in the same way.
\<close>

fun foldName :: "bytes \<Rightarrow> bytes" where
  "foldName [] = []"
| "foldName (c # cs) =
     (if c = CHR 0xC5 \<and> take 1 cs = [CHR 0xBF] then CHR ''S'' # foldName (drop 1 cs)
      else if c = CHR 0xE2 \<and> take 2 cs = [CHR 0x84, CHR 0xAA] then CHR ''K'' # foldName (drop 2 cs)
      else toUpper c # foldName cs)"

text \<open>The look-up of a key among the fields of \<^verbatim>\<open>ModJSON\<close>: the exact name, then the folded name.\<close>

definition isVersionField :: "bytes \<Rightarrow> bool" where
  "isVersionField key = (key = ''version'' \<or> foldName key = foldName ''version'')"

text \<open>
  The members of the top-level object, in order: the literal of each key and the bytes of
  each value (without the spaces between tokens). The bytes after the opening brace go
  through the scanner, as \<^verbatim>\<open>decodeState.object\<close> does with \<^verbatim>\<open>scanWhile\<close>,
  \<^verbatim>\<open>rescanLiteral\<close> and \<^verbatim>\<open>skip\<close>; a member ends at a comma that the scanner reports at
  nesting depth 1 and at the brace that closes the object.
\<close>

datatype part = InKey | InValue

fun object_members :: "scanner \<Rightarrow> part \<Rightarrow> bytes \<Rightarrow> bytes \<Rightarrow> bytes \<Rightarrow> (bytes \<times> bytes) list" where
  "object_members s p k v [] = []"
| "object_members s p k v (c # cs) =
     (case scan_step s c of (s', op) \<Rightarrow>
        if op = scanSkipSpace then object_members s' p k v cs
        else if p = InKey then
          (if op = scanObjectKey then object_members s' InValue k [] cs
           else if op = scanEndObject then []
           else object_members s' InKey (k @ [c]) v cs)
        else if parseState s' = [] then [(k, v)]
        else if op = scanObjectValue \<and> length (parseState s') = 1 then
          (k, v) # object_members s' InKey [] [] cs
        else object_members s' InValue k (v @ [c]) cs)"

text \<open>\<^verbatim>\<open>decodeState.saveError\<close>: the first error is kept.\<close>

definition saveError :: "decode_error option \<Rightarrow> decode_error \<Rightarrow> decode_error option" where
  "saveError saved err = (case saved of None \<Rightarrow> Some err | Some e \<Rightarrow> Some e)"

text \<open>
  A value stored into the field \<^verbatim>\<open>Version\<close>, of Go type \<^verbatim>\<open>string\<close>
  (\<^verbatim>\<open>literalStore\<close>, and \<^verbatim>\<open>array\<close> and \<^verbatim>\<open>object\<close> for a target that is neither):
  a string literal is unquoted and assigned, \<^verbatim>\<open>null\<close> leaves the field as it is, every
  other value saves an \<^verbatim>\<open>UnmarshalTypeError\<close> and decoding goes on.
\<close>

definition store_Version ::
    "bytes \<Rightarrow> ModJSON \<times> decode_error option \<Rightarrow> decode_error + (ModJSON \<times> decode_error option)" where
  "store_Version item st =
     (case item of
        [] \<Rightarrow> Inl PhasePanic
      | c # _ \<Rightarrow>
          if c = CHR 0x22 then
            (case unquoteBytes item of
               None \<Rightarrow> Inl PhasePanic
             | Some s \<Rightarrow> Inr ((fst st)\<lparr>Version := s\<rparr>, snd st))
          else if c = CHR ''n'' then Inr st
          else if c = CHR ''t'' \<or> c = CHR ''f'' then
            Inr (fst st, saveError (snd st) (UnmarshalTypeError ''bool''))
          else if c = CHR ''{'' then
            Inr (fst st, saveError (snd st) (UnmarshalTypeError ''object''))
          else if c = CHR ''['' then
            Inr (fst st, saveError (snd st) (UnmarshalTypeError ''array''))
          else Inr (fst st, saveError (snd st) (UnmarshalTypeError ''number'')))"

text \<open>The loop of \<^verbatim>\<open>decodeState.object\<close> over the members, for the struct \<^verbatim>\<open>ModJSON\<close>.\<close>

fun decode_members ::
    "(bytes \<times> bytes) list \<Rightarrow> ModJSON \<times> decode_error option
      \<Rightarrow> decode_error + (ModJSON \<times> decode_error option)" where
  "decode_members [] st = Inr st"
| "decode_members ((k, v) # rest) st =
     (case unquoteBytes k of
        None \<Rightarrow> Inl PhasePanic
      | Some key \<Rightarrow>
          if isVersionField key then
            (case store_Version v st of
               Inl err \<Rightarrow> Inl err
             | Inr st' \<Rightarrow> decode_members rest st')
          else decode_members rest st)"

text \<open>
  \<^verbatim>\<open>decodeState.unmarshal\<close> into a zero \<^verbatim>\<open>ModJSON\<close>: an object is decoded member by
  member, \<^verbatim>\<open>null\<close> changes nothing, any other value is an \<^verbatim>\<open>UnmarshalTypeError\<close>. The
  saved error, if any, is returned at the end.
\<close>

definition unmarshal :: "bytes \<Rightarrow> decode_error + ModJSON" where
  "unmarshal data =
     (case dropWhile isSpace data of
        [] \<Rightarrow> Inl PhasePanic
      | c # cs \<Rightarrow>
          if c = CHR ''{'' then
            (case decode_members
                    (object_members (fst (scan_step scanner_reset c)) InKey [] [] cs)
                    (\<lparr>Version = []\<rparr>, None) of
               Inl err \<Rightarrow> Inl err
             | Inr st \<Rightarrow> (case snd st of None \<Rightarrow> Inr (fst st) | Some err \<Rightarrow> Inl err))
          else if c = CHR ''n'' then Inr \<lparr>Version = []\<rparr>
          else if c = CHR ''['' then Inl (UnmarshalTypeError ''array'')
          else if c = CHR 0x22 then Inl (UnmarshalTypeError ''string'')
          else if c = CHR ''t'' \<or> c = CHR ''f'' then Inl (UnmarshalTypeError ''bool'')
          else Inl (UnmarshalTypeError ''number''))"

text \<open>\<^verbatim>\<open>json.NewDecoder(rc).Decode(&mod)\<close> with \<^verbatim>\<open>var mod ModJSON\<close>.\<close>

definition Decode :: "stream \<Rightarrow> decode_error + ModJSON" where
  "Decode rc =
     (case readValue rc of
        Inl err \<Rightarrow> Inl err
      | Inr data \<Rightarrow> unmarshal data)"

section \<open>The program's errors\<close>

text \<open>
  One constructor for each error the two archive functions return, named after the
  error taxonomy of the specification where it has a name; the wrapped cause is the argument.
  \<^item> \<open>OuterArchiveCorrupt\<close>: \<^verbatim>\<open>"failed to open zip reader: %w"\<close>
  \<^item> \<open>ModuleOpenFailed\<close>: \<^verbatim>\<open>"failed to open .geode file inside zip: %w"\<close>
  \<^item> \<open>ModuleReadFailed\<close>: \<^verbatim>\<open>"failed to read .geode file inside zip: %w"\<close>
  \<^item> \<open>ModuleNotFound\<close>: \<^verbatim>\<open>".geode file not found in zip"\<close>
  \<^item> \<open>ModuleArchiveCorrupt\<close>: \<^verbatim>\<open>"failed to open .geode as zip: %w"\<close>
  \<^item> \<open>MetadataOpenFailed\<close>: \<^verbatim>\<open>"failed to open mod.json inside .geode: %w"\<close>
  \<^item> \<open>MetadataCorrupt\<close>: \<^verbatim>\<open>"failed to decode mod.json: %w"\<close>
  \<^item> \<open>MissingVersion\<close>: \<^verbatim>\<open>"version key not found in mod.json"\<close>
  \<^item> \<open>MetadataNotFound\<close>: \<^verbatim>\<open>"mod.json not found inside .geode file"\<close>
\<close>

datatype error =
    OuterArchiveCorrupt go_error
  | ModuleOpenFailed go_error
  | ModuleReadFailed go_error
  | ModuleNotFound
  | ModuleArchiveCorrupt go_error
  | MetadataOpenFailed go_error
  | MetadataCorrupt decode_error
  | MissingVersion
  | MetadataNotFound

section \<open>\<^verbatim>\<open>extractGeodeFileFromZip\<close>\<close>

text \<open>
  The loop over \<^verbatim>\<open>r.File\<close>: the first entry whose name has the suffix \<^verbatim>\<open>".geode"\<close>
  is opened and read whole; the loop returns at that entry, whatever the outcome.
\<close>

fun extractGeode_loop :: "GOOS \<Rightarrow> zfile list \<Rightarrow> error + (bytes \<times> string)" where
  "extractGeode_loop goos [] = Inl ModuleNotFound"
| "extractGeode_loop goos (f # fs) =
     (if HasSuffix (Name f) ''.geode'' then
        (case Open f of
           Inl err \<Rightarrow> Inl (ModuleOpenFailed err)
         | Inr rc \<Rightarrow>
            (case io_ReadAll rc of
               Inl err \<Rightarrow> Inl (ModuleReadFailed err)
             | Inr data \<Rightarrow> Inr (data, filepath_Base goos (Name f))))
      else extractGeode_loop goos fs)"

definition extractGeodeFileFromZip ::
    "zip_reader \<Rightarrow> GOOS \<Rightarrow> bytes \<Rightarrow> error + (bytes \<times> string)" where
  "extractGeodeFileFromZip NewReader goos zipData =
     (case NewReader zipData of
        Inl err \<Rightarrow> Inl (OuterArchiveCorrupt err)
      | Inr files \<Rightarrow> extractGeode_loop goos files)"

section \<open>\<^verbatim>\<open>parseVersionFromGeode\<close>\<close>

text \<open>
  The loop over \<^verbatim>\<open>r.File\<close>: directory entries are skipped; the first other entry
  whose name has the suffix \<^verbatim>\<open>"mod.json"\<close> is opened and decoded, and the loop returns at
  that entry, whatever the outcome.
\<close>

fun parseVersion_loop :: "zfile list \<Rightarrow> error + string" where
  "parseVersion_loop [] = Inl MetadataNotFound"
| "parseVersion_loop (f # fs) =
     (if IsDir f then parseVersion_loop fs
      else if HasSuffix (Name f) ''mod.json'' then
        (case Open f of
           Inl err \<Rightarrow> Inl (MetadataOpenFailed err)
         | Inr rc \<Rightarrow>
            (case Decode rc of
               Inl err \<Rightarrow> Inl (MetadataCorrupt err)
             | Inr modj \<Rightarrow>
                 if Version modj = [] then Inl MissingVersion else Inr (Version modj)))
      else parseVersion_loop fs)"

definition parseVersionFromGeode :: "zip_reader \<Rightarrow> bytes \<Rightarrow> error + string" where
  "parseVersionFromGeode NewReader geodeData =
     (case NewReader geodeData of
        Inl err \<Rightarrow> Inl (ModuleArchiveCorrupt err)
      | Inr files \<Rightarrow> parseVersion_loop files)"

section \<open>\<^verbatim>\<open>fmt.Sprintf\<close> with a format and no operands\<close>

text \<open>
  \<^verbatim>\<open>main\<close> computes the tag name as \<^verbatim>\<open>fmt.Sprintf(version)\<close>: the version is the
  format string and there are no operands. The following is \<^verbatim>\<open>doPrintf\<close> of the
  package \<^verbatim>\<open>fmt\<close> for an empty operand list.
\<close>

definition isFlag :: "char \<Rightarrow> bool" where
  "isFlag c = (c = CHR ''#'' \<or> c = CHR ''0'' \<or> c = CHR ''+'' \<or> c = CHR ''-'' \<or> c = CHR '' '')"

text \<open>
  \<^verbatim>\<open>parsenum\<close> on a slice: the number read, whether there was one, and how many bytes
  were consumed; a number beyond \<open>10\<^sup>6\<close> is refused and consumes the whole slice.
\<close>

fun parsenum_loop :: "nat \<Rightarrow> bool \<Rightarrow> nat \<Rightarrow> string \<Rightarrow> nat \<times> bool \<times> nat" where
  "parsenum_loop num isnum n [] = (num, isnum, n)"
| "parsenum_loop num isnum n (c # cs) =
     (if isDigit c then
        (if num > 1000000 then (0, False, n + length (c # cs))
         else parsenum_loop (num * 10 + (byte c - byte CHR ''0'')) True (Suc n) cs)
      else (num, isnum, n))"

definition parsenum :: "string \<Rightarrow> nat \<times> bool \<times> nat" where
  "parsenum s = parsenum_loop 0 False 0 s"

text \<open>
  \<^verbatim>\<open>parseArgNumber\<close> on a slice that starts with \<open>[\<close>: the number of bytes to skip and
  whether the brackets hold a number.
\<close>

definition parseArgNumber :: "string \<Rightarrow> nat \<times> bool" where
  "parseArgNumber s =
     (if length s < 3 then (1, False)
      else
        let body = takeWhile (\<lambda>c. c \<noteq> CHR '']'') (tl s) in
        if length body = length (tl s) then (1, False)
        else (case parsenum body of (num, isnum, n) \<Rightarrow>
                (length body + 2, isnum \<and> n = length body)))"

text \<open>
  \<^verbatim>\<open>argNumber\<close> at index \<open>i\<close>, with no operands: the new index, whether an index in
  brackets was found, and whether \<^verbatim>\<open>goodArgNum\<close> is still true (no index can be good
  when there is no operand).
\<close>

definition argNumber :: "string \<Rightarrow> nat \<Rightarrow> nat \<times> bool \<times> bool" where
  "argNumber s i =
     (case drop i s of
        c # _ \<Rightarrow>
          if c = CHR ''['' then
            (case parseArgNumber (drop i s) of (wid, ok) \<Rightarrow> (i + wid, ok, False))
          else (i, False, True)
      | [] \<Rightarrow> (i, False, True))"

text \<open>
  The verb at the head of a slice: the bytes that \<^verbatim>\<open>writeRune\<close> writes for it and its
  width in the format (a byte that starts no well-formed UTF-8 sequence is the rune
  U+FFFD of width 1).
\<close>

definition verb_at :: "string \<Rightarrow> bytes \<times> nat" where
  "verb_at s =
     (case s of
        [] \<Rightarrow> ([], 0)
      | c # _ \<Rightarrow>
          if byte c < 0x80 then ([c], 1)
          else (let n = utf8_width s in
                if n = 0 then (RuneError_bytes, 1) else (take n s, n)))"

text \<open>
  One format specification, for the bytes \<open>s\<close> that follow a percent sign: what is
  written and how many bytes of \<open>s\<close> are consumed. Flags, an argument index, a width,
  a precision and a second argument index are parsed as \<^verbatim>\<open>doPrintf\<close> does. Then
  \<^verbatim>\<open>%%\<close> writes a percent sign, the end of the format writes \<^verbatim>\<open>%!(NOVERB)\<close>, and any
  other verb finds no operand and writes \<^verbatim>\<open>%!v(BADINDEX)\<close> or \<^verbatim>\<open>%!v(MISSING)\<close>.
\<close>

definition doPrintf_verb :: "string \<Rightarrow> string \<times> nat" where
  "doPrintf_verb s =
     (let i0 = length (takeWhile isFlag s) in
      case argNumber s i0 of (i1, afterIndex1, good1) \<Rightarrow>
      case (case drop i1 s of
              c # _ \<Rightarrow>
                if c = CHR ''*'' then (''%!(BADWIDTH)'', Suc i1, False, good1)
                else (case parsenum (drop i1 s) of (num, widPresent, n) \<Rightarrow>
                        ([], i1 + n, afterIndex1, good1 \<and> \<not> (afterIndex1 \<and> widPresent)))
            | [] \<Rightarrow> ([], i1, afterIndex1, good1))
      of (outw, i2, afterIndex2, good2) \<Rightarrow>
      case (if i2 + 1 < length s \<and> take 1 (drop i2 s) = ''.'' then
              (case argNumber s (Suc i2) of (i3, afterIndex3, good3) \<Rightarrow>
                 if take 1 (drop i3 s) = ''*'' then
                   (''%!(BADPREC)'', Suc i3, False, good2 \<and> \<not> afterIndex2 \<and> good3)
                 else (case parsenum (drop i3 s) of (num, precPresent, n) \<Rightarrow>
                         ([], i3 + n, afterIndex3, good2 \<and> \<not> afterIndex2 \<and> good3)))
            else ([], i2, afterIndex2, good2))
      of (outp, i4, afterIndex4, good4) \<Rightarrow>
      case (if \<not> afterIndex4 then
              (case argNumber s i4 of (i5, afterIndex5, good5) \<Rightarrow> (i5, good4 \<and> good5))
            else (i4, good4))
      of (i5, goodArgNum) \<Rightarrow>
      if i5 \<ge> length s then (outw @ outp @ ''%!(NOVERB)'', length s)
      else (case verb_at (drop i5 s) of (verb, width) \<Rightarrow>
              (outw @ outp @
                 (if verb = ''%'' then ''%''
                  else if \<not> goodArgNum then ''%!'' @ verb @ ''(BADINDEX)''
                  else ''%!'' @ verb @ ''(MISSING)''),
               i5 + width)))"

text \<open>\<^verbatim>\<open>fmt.Sprintf(format)\<close>: bytes up to a percent sign are copied, then one specification is processed.\<close>

fun Sprintf0 :: "string \<Rightarrow> string" where
  "Sprintf0 [] = []"
| "Sprintf0 (c # cs) =
     (if c = CHR ''%'' then
        (case doPrintf_verb cs of (out, n) \<Rightarrow> out @ Sprintf0 (drop n cs))
      else c # Sprintf0 cs)"

section \<open>The remote API and the local environment\<close>

text \<open>
  \<^verbatim>\<open>github.WorkflowRun\<close> and \<^verbatim>\<open>github.Artifact\<close>, as far as \<^verbatim>\<open>main\<close> reads them.
  Every field of these structs is a pointer; \<open>None\<close> is the nil pointer.
  \<open>WorkflowRunID\<close> is \<^verbatim>\<open>a.WorkflowRun.ID\<close>: it is \<open>None\<close> when the artifact has no
  \<^verbatim>\<open>WorkflowRun\<close> or the run has no \<^verbatim>\<open>ID\<close>.
\<close>

record WorkflowRun =
  RunID :: "int option"

record Artifact =
  ArtifactID :: "int option"
  ArtifactName :: "string option"
  WorkflowRunID :: "int option"

text \<open>The getters of \<^verbatim>\<open>go-github\<close> return the zero value for a nil pointer.\<close>

definition GetRunID :: "WorkflowRun \<Rightarrow> int" where
  "GetRunID r = (case RunID r of None \<Rightarrow> 0 | Some i \<Rightarrow> i)"

definition GetID :: "Artifact \<Rightarrow> int" where
  "GetID a = (case ArtifactID a of None \<Rightarrow> 0 | Some i \<Rightarrow> i)"

definition GetName :: "Artifact \<Rightarrow> string" where
  "GetName a = (case ArtifactName a of None \<Rightarrow> [] | Some n \<Rightarrow> n)"

text \<open>\<^verbatim>\<open>github.Tag\<close> as \<^verbatim>\<open>main\<close> fills it in.\<close>

record Tag =
  TagTag :: string
  TagMessage :: string
  TagObjectType :: string
  TagObjectSHA :: string
  TaggerName :: string
  TaggerEmail :: string

text \<open>
  The remote operations: each field is the response of the hosting service to a request
  with the given arguments (the first two are always the owner and the repository).
\<close>

record github =
  ListWorkflowRunsByFileName :: "string \<Rightarrow> string \<Rightarrow> string \<Rightarrow> string \<Rightarrow> go_error + WorkflowRun list"
  ListArtifacts :: "string \<Rightarrow> string \<Rightarrow> go_error + Artifact list"
  DownloadArtifact :: "string \<Rightarrow> string \<Rightarrow> int \<Rightarrow> go_error + string"
  GetRef :: "string \<Rightarrow> string \<Rightarrow> string \<Rightarrow> go_error + string"
  CreateTag :: "string \<Rightarrow> string \<Rightarrow> Tag \<Rightarrow> go_error + string option"
  CreateRef :: "string \<Rightarrow> string \<Rightarrow> string \<Rightarrow> string option \<Rightarrow> go_error option"
  CreateRelease :: "string \<Rightarrow> string \<Rightarrow> string \<Rightarrow> string \<Rightarrow> go_error + int"
  UploadReleaseAsset :: "string \<Rightarrow> string \<Rightarrow> int \<Rightarrow> string \<Rightarrow> bytes \<Rightarrow> go_error option"

text \<open>The requests that a run of \<^verbatim>\<open>main\<close> sends, in order.\<close>

datatype api_call =
    Call_ListWorkflowRunsByFileName string string string string
  | Call_ListArtifacts string string
  | Call_DownloadArtifact string string int
  | Call_GetRef string string string
  | Call_CreateTag string string Tag
  | Call_CreateRef string string string "string option"
  | Call_CreateRelease string string string string
  | Call_UploadReleaseAsset string string int string bytes

text \<open>
  The command line, the process environment, the network and the file system:
  the flags, \<^verbatim>\<open>GITHUB_TOKEN\<close>, the body that \<^verbatim>\<open>http.Get\<close> returns for a URL, and the
  outcome of each operation on a temporary file.
\<close>

record environment =
  flag_owner :: string
  flag_repo :: string
  flag_branch :: string
  flag_workflow :: string
  flag_verbose :: bool
  GITHUB_TOKEN :: string
  http_Get :: "string \<Rightarrow> go_error + stream"
  CreateTemp :: "string \<Rightarrow> go_error + string"
  Write_error :: "string \<Rightarrow> go_error option"
  ReadFile_error :: "string \<Rightarrow> go_error option"
  Open_error :: "string \<Rightarrow> go_error option"

text \<open>
  How a run of \<^verbatim>\<open>main\<close> ends when it does not succeed: \<^verbatim>\<open>os.Exit(1)\<close> after the usage
  message, one constructor for each \<^verbatim>\<open>log.Fatal\<close>, and the run-time panic of a nil
  pointer dereference.
  \<^item> \<open>TokenMissing\<close>: \<^verbatim>\<open>"GITHUB_TOKEN environment variable must be set"\<close>
  \<^item> \<open>ListRunsFailed\<close>: \<^verbatim>\<open>"Error listing workflow runs: %v"\<close>
  \<^item> \<open>NoRunsFound\<close>: \<^verbatim>\<open>"No completed workflow runs found for workflow '%s' on branch '%s'"\<close>
  \<^item> \<open>ListArtifactsFailed\<close>: \<^verbatim>\<open>"Error listing artifacts: %v"\<close>
  \<^item> \<open>ArtifactNotFound\<close>: \<^verbatim>\<open>"Artifact 'Build Output' not found for latest run"\<close>
  \<^item> \<open>DownloadURLFailed\<close>: \<^verbatim>\<open>"Error getting artifact download URL: %v"\<close>
  \<^item> \<open>CreateTempFailed\<close>: \<^verbatim>\<open>"Error creating temp file for artifact download: %v"\<close>
  \<^item> \<open>DownloadFailed\<close>: \<^verbatim>\<open>"Error downloading artifact: %v"\<close>
  \<^item> \<open>WriteTempFailed\<close>: \<^verbatim>\<open>"Error writing artifact to temp file: %v"\<close>
  \<^item> \<open>ReadTempFailed\<close>: \<^verbatim>\<open>"Error reading downloaded artifact zip from temp file: %v"\<close>
  \<^item> \<open>ExtractFailed\<close>: \<^verbatim>\<open>"Error extracting .geode file: %v"\<close>
  \<^item> \<open>ParseFailed\<close>: \<^verbatim>\<open>"Error parsing mod.json: %v"\<close>
  \<^item> \<open>GetRefFailed\<close>: \<^verbatim>\<open>"Error getting branch ref: %v"\<close>
  \<^item> \<open>CreateTagFailed\<close>: \<^verbatim>\<open>"Error creating git tag object: %v"\<close>
  \<^item> \<open>CreateRefFailed\<close>: \<^verbatim>\<open>"Error creating tag ref: %v"\<close>
  \<^item> \<open>CreateReleaseFailed\<close>: \<^verbatim>\<open>"Error creating release: %v"\<close>
  \<^item> \<open>CreateUploadTempFailed\<close>: \<^verbatim>\<open>"Error creating temp file for upload: %v"\<close>
  \<^item> \<open>WriteUploadTempFailed\<close>: \<^verbatim>\<open>"Error writing .geode to temp file: %v"\<close>
  \<^item> \<open>OpenUploadTempFailed\<close>: \<^verbatim>\<open>"Error opening temp file for upload: %v"\<close>
  \<^item> \<open>UploadFailed\<close>: \<^verbatim>\<open>"Error uploading release asset: %v"\<close>
\<close>

datatype fatal =
    UsageExit
  | TokenMissing
  | ListRunsFailed go_error
  | NoRunsFound
  | ListArtifactsFailed go_error
  | NilPointerDereference
  | ArtifactNotFound
  | DownloadURLFailed go_error
  | CreateTempFailed go_error
  | DownloadFailed go_error
  | WriteTempFailed go_error
  | ReadTempFailed go_error
  | ExtractFailed error
  | ParseFailed error
  | GetRefFailed go_error
  | CreateTagFailed go_error
  | CreateRefFailed go_error
  | CreateReleaseFailed go_error
  | CreateUploadTempFailed go_error
  | WriteUploadTempFailed go_error
  | OpenUploadTempFailed go_error
  | UploadFailed go_error

text \<open>A run: the requests sent to the hosting service, and the fatal end or success.\<close>

type_synonym run = "api_call list \<times> (fatal + unit)"

section \<open>\<^verbatim>\<open>main\<close>\<close>

text \<open>
  The loop over \<^verbatim>\<open>arts.Artifacts\<close>. The arguments of the \<^verbatim>\<open>debugf\<close> call are evaluated
  for every artifact the loop reaches, whether or not the output is verbose, and one of
  them is \<^verbatim>\<open>*a.GetWorkflowRun().ID\<close>: an artifact without the identifier of its run
  stops the program with a nil pointer dereference.
\<close>

fun select_artifact :: "int \<Rightarrow> Artifact list \<Rightarrow> fatal + Artifact" where
  "select_artifact latestRunID [] = Inl ArtifactNotFound"
| "select_artifact latestRunID (a # as) =
     (case WorkflowRunID a of
        None \<Rightarrow> Inl NilPointerDereference
      | Some runID \<Rightarrow>
          if GetName a = ''Build Output'' \<and> runID = latestRunID then Inr a
          else select_artifact latestRunID as)"

text \<open>
  Lines 154 to 240: the tag, its reference, the release and the asset.
  \<^verbatim>\<open>fmt.Sprintf("Tag for version %s", version)\<close> and \<^verbatim>\<open>fmt.Sprintf("Release %s", tagName)\<close>
  have a constant format whose only verb \<^verbatim>\<open>%s\<close> writes the string operand as it is.
\<close>

definition main_publish :: "github \<Rightarrow> environment \<Rightarrow> api_call list \<Rightarrow> bytes \<Rightarrow> string \<Rightarrow> string \<Rightarrow> run" where
  "main_publish client env calls geodeData geodeFilename version =
     (let owner = flag_owner env; repo = flag_repo env;
          tagName = Sprintf0 version;
          calls1 = calls @ [Call_GetRef owner repo (''refs/heads/'' @ flag_branch env)]
      in
      (case GetRef client owner repo (''refs/heads/'' @ flag_branch env) of
        Inl err \<Rightarrow> (calls1, Inl (GetRefFailed err))
      | Inr commitSHA \<Rightarrow>
      (let tagMessage = ''Tag for version '' @ version;
          tag = \<lparr>TagTag = tagName, TagMessage = tagMessage,
                 TagObjectType = ''commit'', TagObjectSHA = commitSHA,
                 TaggerName = ''GitHub Actions Bot'', TaggerEmail = ''actions@github.com''\<rparr>;
          calls2 = calls1 @ [Call_CreateTag owner repo tag]
      in
      (case CreateTag client owner repo tag of
        Inl err \<Rightarrow> (calls2, Inl (CreateTagFailed err))
      | Inr createdTagSHA \<Rightarrow>
      (let calls3 = calls2 @ [Call_CreateRef owner repo (''refs/tags/'' @ tagName) createdTagSHA] in
      (case CreateRef client owner repo (''refs/tags/'' @ tagName) createdTagSHA of
        Some err \<Rightarrow> (calls3, Inl (CreateRefFailed err))
      | None \<Rightarrow>
      (let calls4 = calls3 @ [Call_CreateRelease owner repo tagName (''Release '' @ tagName)] in
      (case CreateRelease client owner repo tagName (''Release '' @ tagName) of
        Inl err \<Rightarrow> (calls4, Inl (CreateReleaseFailed err))
      | Inr releaseID \<Rightarrow>
      (case CreateTemp env ''mod-*.geode'' of
        Inl err \<Rightarrow> (calls4, Inl (CreateUploadTempFailed err))
      | Inr tmpfile \<Rightarrow>
      (case Write_error env tmpfile of
        Some err \<Rightarrow> (calls4, Inl (WriteUploadTempFailed err))
      | None \<Rightarrow>
      (case Open_error env tmpfile of
        Some err \<Rightarrow> (calls4, Inl (OpenUploadTempFailed err))
      | None \<Rightarrow>
      (let calls5 = calls4 @ [Call_UploadReleaseAsset owner repo releaseID geodeFilename geodeData] in
      (case UploadReleaseAsset client owner repo releaseID geodeFilename geodeData of
        Some err \<Rightarrow> (calls5, Inl (UploadFailed err))
      | None \<Rightarrow> (calls5, Inr ()))))))))))))))"

text \<open>
  Lines 93 to 152: the download of the artifact into a temporary file, the two archive
  functions, and then the publication. \<^verbatim>\<open>io.Copy\<close> fails with the read error of the body
  or the write error of the file; the bytes read back are the bytes of the body.
  \<^verbatim>\<open>debugListZipContents\<close> only prints, and only when the output is verbose.
\<close>

definition main_download ::
    "zip_reader \<Rightarrow> GOOS \<Rightarrow> github \<Rightarrow> environment \<Rightarrow> api_call list \<Rightarrow> Artifact \<Rightarrow> run" where
  "main_download NewReader goos client env calls artifact =
     (let owner = flag_owner env; repo = flag_repo env;
          calls1 = calls @ [Call_DownloadArtifact owner repo (GetID artifact)]
      in
      (case DownloadArtifact client owner repo (GetID artifact) of
        Inl err \<Rightarrow> (calls1, Inl (DownloadURLFailed err))
      | Inr artifactURL \<Rightarrow>
      (case CreateTemp env ''artifact-*.zip'' of
        Inl err \<Rightarrow> (calls1, Inl (CreateTempFailed err))
      | Inr tmpZipFile \<Rightarrow>
      (case http_Get env artifactURL of
        Inl err \<Rightarrow> (calls1, Inl (DownloadFailed err))
      | Inr body \<Rightarrow>
      (case (case snd body of Some err \<Rightarrow> Some err | None \<Rightarrow> Write_error env tmpZipFile) of
        Some err \<Rightarrow> (calls1, Inl (WriteTempFailed err))
      | None \<Rightarrow>
      (case ReadFile_error env tmpZipFile of
        Some err \<Rightarrow> (calls1, Inl (ReadTempFailed err))
      | None \<Rightarrow>
      (let zipData = fst body in
      (case extractGeodeFileFromZip NewReader goos zipData of
        Inl err \<Rightarrow> (calls1, Inl (ExtractFailed err))
      | Inr (geodeData, geodeFilename) \<Rightarrow>
      (case parseVersionFromGeode NewReader geodeData of
        Inl err \<Rightarrow> (calls1, Inl (ParseFailed err))
      | Inr version \<Rightarrow>
          main_publish client env calls1 geodeData geodeFilename version)))))))))"

text \<open>
  \<^verbatim>\<open>main\<close>, lines 33 to 91 and on: the flags and the token are checked, the completed
  runs of the workflow on the branch are listed, the first one is taken as the latest,
  all artifacts of the repository are listed and the artifact of that run is selected.
\<close>

definition main :: "zip_reader \<Rightarrow> GOOS \<Rightarrow> github \<Rightarrow> environment \<Rightarrow> run" where
  "main NewReader goos client env =
     (let owner = flag_owner env; repo = flag_repo env in
      if owner = [] \<or> repo = [] then ([], Inl UsageExit)
      else if GITHUB_TOKEN env = [] then ([], Inl TokenMissing)
      else
      (let calls1 = [Call_ListWorkflowRunsByFileName owner repo (flag_workflow env) (flag_branch env)] in
      (case ListWorkflowRunsByFileName client owner repo (flag_workflow env) (flag_branch env) of
        Inl err \<Rightarrow> (calls1, Inl (ListRunsFailed err))
      | Inr runs \<Rightarrow>
      (case runs of
        [] \<Rightarrow> (calls1, Inl NoRunsFound)
      | latestRun # _ \<Rightarrow>
      (let calls2 = calls1 @ [Call_ListArtifacts owner repo] in
      (case ListArtifacts client owner repo of
        Inl err \<Rightarrow> (calls2, Inl (ListArtifactsFailed err))
      | Inr arts \<Rightarrow>
      (case select_artifact (GetRunID latestRun) arts of
        Inl err \<Rightarrow> (calls2, Inl err)
      | Inr artifact \<Rightarrow> main_download NewReader goos client env calls2 artifact)))))))"

section \<open>The words of the specification, and example inputs\<close>


text \<open>
  Archive entries for the examples: a regular file with the given content, and an entry
  that the external attributes mark as a directory.
\<close>

definition file_entry :: "string \<Rightarrow> bytes \<Rightarrow> zfile" where
  "file_entry name content = \<lparr>Name = name, ModeDir = False, Open = Inr (content, None)\<rparr>"

definition dir_entry :: "string \<Rightarrow> zfile" where
  "dir_entry name = \<lparr>Name = name, ModeDir = True, Open = Inr ([], None)\<rparr>"

text \<open>
  The entries that \<^verbatim>\<open>parseVersionFromGeode\<close> stops at: not a directory, and the name
  ends in \<^verbatim>\<open>mod.json\<close>.
\<close>

definition isMetadataEntry :: "zfile \<Rightarrow> bool" where
  "isMetadataEntry f = (\<not> IsDir f \<and> HasSuffix (Name f) ''mod.json'')"

text \<open>
  A \<^verbatim>\<open>zip.NewReader\<close> for the examples: the downloaded artifact holds \<^verbatim>\<open>a.txt\<close> and the
  module file \<^verbatim>\<open>mod-final.geode\<close>; the module file holds \<^verbatim>\<open>mod.json\<close> with the given
  content; no other buffer is an archive.
\<close>

definition example_reader :: "bytes \<Rightarrow> zip_reader" where
  "example_reader modjson zipData =
     (if zipData = ''PK-artifact'' then
        Inr [file_entry ''a.txt'' ''hello'', file_entry ''mod-final.geode'' ''PK-module'']
      else if zipData = ''PK-module'' then Inr [file_entry ''mod.json'' modjson]
      else Inl (GoError ''zip: not a valid zip file''))"

text \<open>
  A hosting service for the examples: it answers the two listings with the given runs
  and artifacts, and every other request succeeds.
\<close>

definition example_client :: "WorkflowRun list \<Rightarrow> Artifact list \<Rightarrow> github" where
  "example_client runs arts =
     \<lparr>ListWorkflowRunsByFileName = (\<lambda>owner repo workflowFile branch. Inr runs),
      ListArtifacts = (\<lambda>owner repo. Inr arts),
      DownloadArtifact = (\<lambda>owner repo artifactID. Inr ''https://example.invalid/artifact.zip''),
      GetRef = (\<lambda>owner repo ref. Inr ''c0ffee''),
      CreateTag = (\<lambda>owner repo tag. Inr (Some ''7a9'')),
      CreateRef = (\<lambda>owner repo ref sha. None),
      CreateRelease = (\<lambda>owner repo tagName name. Inr 1),
      UploadReleaseAsset = (\<lambda>owner repo releaseID name content. None)\<rparr>"

text \<open>
  A command line and a machine for the examples: owner \<^verbatim>\<open>o\<close>, repository \<^verbatim>\<open>r\<close>, the
  default branch and workflow, a token, a download that delivers the artifact, and a file
  system without errors.
\<close>

definition example_env :: environment where
  "example_env =
     \<lparr>flag_owner = ''o'', flag_repo = ''r'', flag_branch = ''main'',
      flag_workflow = ''multi-platform.yml'', flag_verbose = False,
      GITHUB_TOKEN = ''token'',
      http_Get = (\<lambda>url. Inr (''PK-artifact'', None)),
      CreateTemp = (\<lambda>pattern. Inr (''/tmp/'' @ pattern)),
      Write_error = (\<lambda>name. None),
      ReadFile_error = (\<lambda>name. None),
      Open_error = (\<lambda>name. None)\<rparr>"

text \<open>Whether a request is the listing of the artifacts.\<close>

fun isListArtifacts :: "api_call \<Rightarrow> bool" where
  "isListArtifacts (Call_ListArtifacts owner repo) = True"
| "isListArtifacts call = False"

section \<open>Properties of \<^verbatim>\<open>extractGeodeFileFromZip\<close>\<close>

text \<open>The loop returns at the first entry whose name has the suffix, and only there.\<close>

lemma extractGeode_loop_find:
  "extractGeode_loop goos fs =
     (case find (\<lambda>f. HasSuffix (Name f) ''.geode'') fs of
        None \<Rightarrow> Inl ModuleNotFound
      | Some f \<Rightarrow>
         (case Open f of
            Inl err \<Rightarrow> Inl (ModuleOpenFailed err)
          | Inr rc \<Rightarrow>
             (case io_ReadAll rc of
                Inl err \<Rightarrow> Inl (ModuleReadFailed err)
              | Inr data \<Rightarrow> Inr (data, filepath_Base goos (Name f)))))"
  by (induction fs) simp_all



text \<open>
  Claim C2. The claim: the Locator selects the first entry that is not a directory and
  whose name ends in \<^verbatim>\<open>.geode\<close>, so that a directory entry with such a name is never
  selected. \<^verbatim>\<open>extractGeodeFileFromZip\<close> tests the suffix only; unlike
  \<^verbatim>\<open>parseVersionFromGeode\<close> it never calls \<^verbatim>\<open>f.FileInfo().IsDir()\<close>. For the archive
  \<^verbatim>\<open>a.txt\<close>, \<^verbatim>\<open>pkg.geode\<close> (a directory by its attributes), \<^verbatim>\<open>build/mod-v1.geode\<close> the
  code returns the directory entry, with its empty content, and not the module file.
\<close>

theorem C2_directory_entry_selected:
  "IsDir (dir_entry ''pkg.geode'')
   \<and> \<not> IsDir (file_entry ''build/mod-v1.geode'' ''PK-module'')
   \<and> HasSuffix (Name (file_entry ''build/mod-v1.geode'' ''PK-module'')) ''.geode''
   \<and> extractGeodeFileFromZip
        (\<lambda>zipData. Inr [file_entry ''a.txt'' ''hello'', dir_entry ''pkg.geode'',
                         file_entry ''build/mod-v1.geode'' ''PK-module''])
        Unix ''PK''
       = Inr ([], ''pkg.geode'')"
  by (simp add: extractGeodeFileFromZip_def HasSuffix_def file_entry_def dir_entry_def
        IsDir_def io_ReadAll_def filepath_Base_def)

text \<open>
  Claim C6. For every outer archive that opens and in which no entry's name ends in
  \<^verbatim>\<open>.geode\<close>, \<^verbatim>\<open>extractGeodeFileFromZip\<close> fails with \<open>ModuleNotFound\<close>
  (\<^verbatim>\<open>".geode file not found in zip"\<close>); the result is the error alone, with no content
  and no file name.
\<close>

theorem C6_module_not_found:
  assumes "NewReader zipData = Inr files"
    and "list_all (\<lambda>f. \<not> HasSuffix (Name f) ''.geode'') files"
  shows "extractGeodeFileFromZip NewReader goos zipData = Inl ModuleNotFound"
proof -
  from assms(2) have "find (\<lambda>f. HasSuffix (Name f) ''.geode'') files = None"
    by (simp add: find_None_iff list_all_iff)
  with assms(1) show ?thesis
    by (simp add: extractGeodeFileFromZip_def extractGeode_loop_find)
qed

theorem C6_module_not_found_witness:
  "extractGeodeFileFromZip
     (\<lambda>zipData. Inr [file_entry ''a.txt'' ''hello'', dir_entry ''build/'',
                      file_entry ''build/readme.md'' ''text''])
     Unix ''PK'' = Inl ModuleNotFound"
  using C6_module_not_found
    [of "\<lambda>zipData. Inr [file_entry ''a.txt'' ''hello'', dir_entry ''build/'',
                          file_entry ''build/readme.md'' ''text'']"
        "''PK''"
        "[file_entry ''a.txt'' ''hello'', dir_entry ''build/'', file_entry ''build/readme.md'' ''text'']"
        Unix]
  by (simp add: HasSuffix_def file_entry_def dir_entry_def)




section \<open>Properties of the JSON scanner and of \<^verbatim>\<open>readValue\<close>\<close>

lemmas step_defs =
  scan_step_def stateEndValue_step_def stateEndTop_step_def stateBeginValue_step_def
  stateBeginString_step_def stateESign_step_def state0_step_def literal_step_def hex_step_def
  scanner_error_def pushParseState_def popParseState_def Let_def




lemma scan_step_pop:
  assumes "scan_step s c = (s', op)" "op = scanEndObject \<or> op = scanEndArray"
  shows "step s' = (if parseState s' = [] then stateEndTop else stateEndValue)"
  using assms
  by (cases "step s"; cases "parseState s")
     (auto simp: step_defs split: if_splits parse_state.splits)

lemma scan_step_inside:
  assumes "scan_step s c = (s', op)"
    and "parseState s \<noteq> []" "step s \<noteq> stateError" "step s \<noteq> stateEndTop"
  shows "(op = scanError \<and> step s' = stateError)
       \<or> ((op = scanEndObject \<or> op = scanEndArray) \<and> (c = CHR ''}'' \<or> c = CHR '']'')
            \<and> parseState s' = [] \<and> step s' = stateEndTop)
       \<or> (parseState s' \<noteq> [] \<and> step s' \<noteq> stateError \<and> step s' \<noteq> stateEndTop
            \<and> op \<noteq> scanEnd \<and> op \<noteq> scanError)"
  using assms
  by (cases "step s"; cases "parseState s")
     (auto simp: step_defs split: if_splits parse_state.splits)


lemma stateEndValue_step_space_top:
  "parseState s = [] \<Longrightarrow> snd (stateEndValue_step s CHR '' '') = scanEnd"
  by (simp add: stateEndValue_step_def stateEndTop_step_def isSpace_def)

lemma stateEndValue_step_space_inside:
  "parseState s \<noteq> [] \<Longrightarrow> step s = stateEndValue \<Longrightarrow>
     stateEndValue_step s CHR '' '' = (s, scanSkipSpace)"
  by (cases "parseState s") (simp_all add: stateEndValue_step_def isSpace_def)





lemma readValue_loop_inside_append:
  assumes "checkValid_loop s cs = Some sf" "scanner_eof sf"
    and "parseState s \<noteq> []" "step s \<noteq> stateError" "step s \<noteq> stateEndTop"
  shows "readValue_loop s scanned (cs @ t) ending = readValue_loop s scanned cs None
       \<and> (\<exists>v. readValue_loop s scanned cs None = Inr v)"
  using assms
proof (induction cs arbitrary: s scanned)
  case Nil
  obtain s' op where st: "scan_step s CHR '' '' = (s', op)"
    by (cases "scan_step s CHR '' ''") auto
  from Nil have "step s' = stateEndTop"
    using st by (simp add: scanner_eof_def)
  with scan_step_inside [OF st Nil.prems(3-5)] show ?case by auto
next
  case (Cons c cs)
  obtain s' op where st: "scan_step s c = (s', op)"
    by (cases "scan_step s c") auto
  from Cons.prems(1) st have ne: "op \<noteq> scanError" and cv: "checkValid_loop s' cs = Some sf"
    by (auto split: if_splits)
  from scan_step_inside [OF st Cons.prems(3-5)] ne
  consider (Top) "op = scanEndObject \<or> op = scanEndArray" "parseState s' = []"
    | (In) "parseState s' \<noteq> []" "step s' \<noteq> stateError" "step s' \<noteq> stateEndTop" "op \<noteq> scanEnd"
    by auto
  then show ?case
  proof cases
    case Top
    then have "snd (stateEndValue_step s' CHR '' '') = scanEnd"
      by (simp add: stateEndValue_step_space_top)
    with st Top show ?thesis
      by (auto split: prod.splits)
  next
    case In
    note IH = Cons.IH [OF cv Cons.prems(2) In(1-3), of "scanned @ [c]"]
    show ?thesis
    proof (cases "op = scanEndObject \<or> op = scanEndArray")
      case True
      from scan_step_pop [OF st True] In(1)
      have "stateEndValue_step s' CHR '' '' = (s', scanSkipSpace)"
        by (simp add: stateEndValue_step_space_inside)
      with st True In(4) IH show ?thesis by auto
    next
      case False
      with st In(4) ne IH show ?thesis by auto
    qed
  qed
qed

lemma readValue_loop_spaces:
  "list_all isSpace ws \<Longrightarrow>
     readValue_loop scanner_reset scanned (ws @ cs) ending =
     readValue_loop scanner_reset (scanned @ ws) cs ending"
  by (induction ws arbitrary: scanned)
     (simp_all add: scan_step_def stateBeginValue_step_def scanner_reset_def)

lemma checkValid_loop_spaces:
  "list_all isSpace ws \<Longrightarrow>
     checkValid_loop scanner_reset (ws @ cs) = checkValid_loop scanner_reset cs"
  by (induction ws)
     (simp_all add: scan_step_def stateBeginValue_step_def scanner_reset_def)

lemma scan_step_open_brace:
  "scan_step scanner_reset CHR ''{'' =
     (\<lparr>step = stateBeginStringOrEmpty, parseState = [parseObjectKey]\<rparr>, scanBeginObject)"
  by (simp add: scan_step_def stateBeginValue_step_def scanner_reset_def isSpace_def
        pushParseState_def maxNestingDepth_def)

lemma readValue_object_append:
  assumes "json_Valid obj" and "dropWhile isSpace obj = CHR ''{'' # rest"
  shows "readValue (obj @ trailing, ending) = readValue (obj, None)
       \<and> (\<exists>v. readValue (obj, None) = Inr v)"
proof -
  define ws where "ws = takeWhile isSpace obj"
  have obj: "obj = ws @ CHR ''{'' # rest"
    using assms(2) takeWhile_dropWhile_id [of isSpace obj] by (simp add: ws_def)
  have ws: "list_all isSpace ws"
    by (simp add: ws_def list_all_iff) (meson set_takeWhileD)
  define s1 where "s1 = \<lparr>step = stateBeginStringOrEmpty, parseState = [parseObjectKey]\<rparr>"
  from assms(1) obtain sf where cv: "checkValid_loop scanner_reset obj = Some sf"
    and eof: "scanner_eof sf"
    by (auto simp: json_Valid_def split: option.splits)
  from cv have cv1: "checkValid_loop s1 rest = Some sf"
    by (simp add: obj checkValid_loop_spaces [OF ws] scan_step_open_brace s1_def)
  have ins: "parseState s1 \<noteq> []" "step s1 \<noteq> stateError" "step s1 \<noteq> stateEndTop"
    by (simp_all add: s1_def)
  have l: "readValue (obj @ trailing, ending)
             = readValue_loop s1 (ws @ [CHR ''{'']) (rest @ trailing) ending"
    by (simp add: readValue_def obj readValue_loop_spaces [OF ws] scan_step_open_brace s1_def)
  have r: "readValue (obj, None) = readValue_loop s1 (ws @ [CHR ''{'']) rest None"
    by (simp add: readValue_def obj readValue_loop_spaces [OF ws] scan_step_open_brace s1_def)
  from readValue_loop_inside_append [OF cv1 eof ins] l r show ?thesis
    by simp
qed

section \<open>Properties of \<^verbatim>\<open>parseVersionFromGeode\<close>\<close>

text \<open>The loop returns at the first entry that is not a directory and whose name has the suffix.\<close>

lemma parseVersion_loop_find:
  "parseVersion_loop fs =
     (case find isMetadataEntry fs of
        None \<Rightarrow> Inl MetadataNotFound
      | Some f \<Rightarrow>
         (case Open f of
            Inl err \<Rightarrow> Inl (MetadataOpenFailed err)
          | Inr rc \<Rightarrow>
             (case Decode rc of
                Inl err \<Rightarrow> Inl (MetadataCorrupt err)
              | Inr modj \<Rightarrow>
                  if Version modj = [] then Inl MissingVersion else Inr (Version modj))))"
  by (induction fs) (simp_all add: isMetadataEntry_def)









text \<open>
  Claim C10, as stated: for a valid JSON object followed by trailing bytes the Reader
  never raises \<open>MetadataCorrupt\<close>. It does when the leading object itself does not decode
  into \<^verbatim>\<open>ModJSON\<close>: in \<^verbatim>\<open>{"version":5}garbage\<close> the leading object is valid JSON, and
  its version is a number, which \<^verbatim>\<open>Decode\<close> refuses for a field of type \<^verbatim>\<open>string\<close>.
\<close>

theorem C10_number_version_counterexample:
  \<open>json_Valid ''{"version":5}''
   \<and> parseVersionFromGeode
        (\<lambda>geodeData. Inr [file_entry ''mod.json'' (''{"version":5}'' @ ''garbage'')])
        ''PK'' = Inl (MetadataCorrupt (UnmarshalTypeError ''number''))\<close>
  by code_simp

text \<open>
  Claim C10, amended: when the content of the matched metadata entry is a valid JSON
  object followed by arbitrary trailing bytes (and whatever the way the stream ends after
  them), the result of the Reader is its result for the leading object alone: the trailing
  bytes are not decoded and never cause \<open>MetadataCorrupt\<close>. So the Reader succeeds with the
  version when the leading object decodes to a record with a version that is not empty,
  it raises \<open>MissingVersion\<close> when the object decodes to a record with an empty version,
  and it raises \<open>MetadataCorrupt\<close> only when the leading object alone does not decode.
\<close>

theorem C10_trailing_bytes_ignored:
  assumes "NewReader geodeData = Inr files"
    and "find isMetadataEntry files = Some f"
    and "Open f = Inr (obj @ trailing, ending)"
    and "json_Valid obj"
    and "dropWhile isSpace obj = CHR ''{'' # rest"
  shows "parseVersionFromGeode NewReader geodeData =
           (case Decode (obj, None) of
              Inl err \<Rightarrow> Inl (MetadataCorrupt err)
            | Inr m \<Rightarrow> if Version m = [] then Inl MissingVersion else Inr (Version m))"
proof -
  from readValue_object_append [OF assms(4,5)]
  have "readValue (obj @ trailing, ending) = readValue (obj, None)"
    by blast
  then have "Decode (obj @ trailing, ending) = Decode (obj, None)"
    by (simp add: Decode_def)
  with assms(1-3) show ?thesis
    by (simp add: parseVersionFromGeode_def parseVersion_loop_find)
qed

theorem C10_trailing_bytes_ignored_witness:
  \<open>parseVersionFromGeode
     (\<lambda>geodeData. Inr [file_entry ''mod.json'' (''{"version":"1.0"}'' @ ''garbage'')])
     ''PK'' = Inr ''1.0''\<close>
proof -
  have f: \<open>find isMetadataEntry [file_entry ''mod.json'' (''{"version":"1.0"}'' @ ''garbage'')]
             = Some (file_entry ''mod.json'' (''{"version":"1.0"}'' @ ''garbage''))\<close>
    by (simp add: isMetadataEntry_def IsDir_def HasSuffix_def file_entry_def)
  have o: \<open>Open (file_entry ''mod.json'' (''{"version":"1.0"}'' @ ''garbage''))
             = Inr (''{"version":"1.0"}'' @ ''garbage'', None)\<close>
    by (simp add: file_entry_def)
  have v: \<open>json_Valid ''{"version":"1.0"}''\<close>
    by code_simp
  have b: \<open>dropWhile isSpace ''{"version":"1.0"}'' = CHR ''{'' # ''"version":"1.0"}''\<close>
    by (simp add: isSpace_def)
  have d: \<open>Decode (''{"version":"1.0"}'', None) = Inr \<lparr>Version = ''1.0''\<rparr>\<close>
    by code_simp
  from C10_trailing_bytes_ignored
         [of \<open>\<lambda>geodeData. Inr [file_entry ''mod.json'' (''{"version":"1.0"}'' @ ''garbage'')]\<close>
             "''PK''", OF _ f o v b]
       d
  show ?thesis by simp
qed

section \<open>Properties of \<^verbatim>\<open>main\<close>\<close>

text \<open>A format without a percent sign is written as it is.\<close>

lemma Sprintf0_no_percent: "CHR ''%'' \<notin> set v \<Longrightarrow> Sprintf0 v = v"
  by (induction v) auto

text \<open>
  When every artifact carries the identifier of its run, the loop of \<^verbatim>\<open>main\<close> selects
  the first artifact named \<^verbatim>\<open>Build Output\<close> that belongs to the latest run, and fails
  with \<open>ArtifactNotFound\<close> when there is none.
\<close>

lemma select_artifact_find:
  "list_all (\<lambda>a. WorkflowRunID a \<noteq> None) arts \<Longrightarrow>
     select_artifact latestRunID arts =
       (case find (\<lambda>a. GetName a = ''Build Output'' \<and> WorkflowRunID a = Some latestRunID) arts of
          None \<Rightarrow> Inl ArtifactNotFound
        | Some a \<Rightarrow> Inr a)"
  by (induction arts) (auto split: option.splits)

text \<open>
  The end-to-end example of the specification: run 42, its artifact \<^verbatim>\<open>Build Output\<close>
  holding \<^verbatim>\<open>mod-final.geode\<close>, whose \<^verbatim>\<open>mod.json\<close> is \<^verbatim>\<open>{"version":"2.0.0"}\<close>. The tag is
  \<^verbatim>\<open>2.0.0\<close>, the release title \<^verbatim>\<open>Release 2.0.0\<close>, the asset \<^verbatim>\<open>mod-final.geode\<close>.
\<close>

lemma end_to_end_example:
  \<open>main (example_reader ''{"version":"2.0.0"}'') Unix
     (example_client [\<lparr>RunID = Some 42\<rparr>]
        [\<lparr>ArtifactID = Some 7, ArtifactName = Some ''Build Output'', WorkflowRunID = Some 42\<rparr>])
     example_env
   = ([Call_ListWorkflowRunsByFileName ''o'' ''r'' ''multi-platform.yml'' ''main'',
       Call_ListArtifacts ''o'' ''r'',
       Call_DownloadArtifact ''o'' ''r'' 7,
       Call_GetRef ''o'' ''r'' ''refs/heads/main'',
       Call_CreateTag ''o'' ''r''
         \<lparr>TagTag = ''2.0.0'', TagMessage = ''Tag for version 2.0.0'',
          TagObjectType = ''commit'', TagObjectSHA = ''c0ffee'',
          TaggerName = ''GitHub Actions Bot'', TaggerEmail = ''actions@github.com''\<rparr>,
       Call_CreateRef ''o'' ''r'' ''refs/tags/2.0.0'' (Some ''7a9''),
       Call_CreateRelease ''o'' ''r'' ''2.0.0'' ''Release 2.0.0'',
       Call_UploadReleaseAsset ''o'' ''r'' 1 ''mod-final.geode'' ''PK-module''],
      Inr ())\<close>
  by code_simp

text \<open>
  Claim C1. The claim: the name of the tag, of its reference and of the release is the
  version string, character for character, also when the version contains a percent
  sign. \<^verbatim>\<open>main\<close> computes the name as \<^verbatim>\<open>fmt.Sprintf(version)\<close>, with the version as
  the format, while the tag message and the release title are formatted with \<^verbatim>\<open>%s\<close>.
  For the metadata \<^verbatim>\<open>{"version":"100%"}\<close> the run creates the tag \<^verbatim>\<open>100%!(NOVERB)\<close>, the
  reference \<^verbatim>\<open>refs/tags/100%!(NOVERB)\<close> and the release \<^verbatim>\<open>Release 100%!(NOVERB)\<close>, and the
  tag message alone has the version \<^verbatim>\<open>100%\<close>.
\<close>

theorem C1_percent_in_version_changes_tag:
  \<open>main (example_reader ''{"version":"100%"}'') Unix
     (example_client [\<lparr>RunID = Some 42\<rparr>]
        [\<lparr>ArtifactID = Some 7, ArtifactName = Some ''Build Output'', WorkflowRunID = Some 42\<rparr>])
     example_env
   = ([Call_ListWorkflowRunsByFileName ''o'' ''r'' ''multi-platform.yml'' ''main'',
       Call_ListArtifacts ''o'' ''r'',
       Call_DownloadArtifact ''o'' ''r'' 7,
       Call_GetRef ''o'' ''r'' ''refs/heads/main'',
       Call_CreateTag ''o'' ''r''
         \<lparr>TagTag = ''100%!(NOVERB)'', TagMessage = ''Tag for version 100%'',
          TagObjectType = ''commit'', TagObjectSHA = ''c0ffee'',
          TaggerName = ''GitHub Actions Bot'', TaggerEmail = ''actions@github.com''\<rparr>,
       Call_CreateRef ''o'' ''r'' ''refs/tags/100%!(NOVERB)'' (Some ''7a9''),
       Call_CreateRelease ''o'' ''r'' ''100%!(NOVERB)'' ''Release 100%!(NOVERB)'',
       Call_UploadReleaseAsset ''o'' ''r'' 1 ''mod-final.geode'' ''PK-module''],
      Inr ())\<close>
  by code_simp

text \<open>
  Claim C7. When the flags and the token are present and the listing of the completed
  runs of the workflow on the branch returns the empty list, \<^verbatim>\<open>main\<close> ends with
  \<open>NoRunsFound\<close>, and the listing of the runs is the only request of the run: the
  artifacts are never listed.
\<close>

theorem C7_no_runs_found:
  assumes "flag_owner env \<noteq> []" and "flag_repo env \<noteq> []" and "GITHUB_TOKEN env \<noteq> []"
    and "ListWorkflowRunsByFileName client (flag_owner env) (flag_repo env)
           (flag_workflow env) (flag_branch env) = Inr []"
  shows "main NewReader goos client env =
           ([Call_ListWorkflowRunsByFileName (flag_owner env) (flag_repo env)
               (flag_workflow env) (flag_branch env)],
            Inl NoRunsFound)
       \<and> \<not> list_ex isListArtifacts (fst (main NewReader goos client env))"
  using assms by (simp add: main_def Let_def)

theorem C7_no_runs_found_witness:
  \<open>main (example_reader ''{"version":"2.0.0"}'') Unix (example_client [] []) example_env =
     ([Call_ListWorkflowRunsByFileName ''o'' ''r'' ''multi-platform.yml'' ''main''],
      Inl NoRunsFound)
   \<and> \<not> list_ex isListArtifacts
         (fst (main (example_reader ''{"version":"2.0.0"}'') Unix (example_client [] []) example_env))\<close>
  using C7_no_runs_found
     [of example_env "example_client [] []" \<open>example_reader ''{"version":"2.0.0"}''\<close> Unix]
  by (simp add: example_env_def example_client_def)

text \<open>
  Claim C8. The claim: with a run list that is not empty, the first artifact named
  \<^verbatim>\<open>Build Output\<close> that belongs to the first run is selected, and the run fails with
  \<open>ArtifactNotFound\<close> when the scan finds none. The loop dereferences
  \<^verbatim>\<open>*a.GetWorkflowRun().ID\<close> for every artifact it reaches, where the other fields are read
  through the nil-safe getters: an artifact without the identifier of a run, listed
  before the artifact looked for, stops the program with a nil pointer dereference,
  and the artifact of run 42 is never reached.
\<close>

theorem C8_artifact_without_run_panics:
  \<open>main (example_reader ''{"version":"2.0.0"}'') Unix
     (example_client [\<lparr>RunID = Some 42\<rparr>]
        [\<lparr>ArtifactID = Some 6, ArtifactName = Some ''logs'', WorkflowRunID = None\<rparr>,
         \<lparr>ArtifactID = Some 7, ArtifactName = Some ''Build Output'', WorkflowRunID = Some 42\<rparr>])
     example_env
   = ([Call_ListWorkflowRunsByFileName ''o'' ''r'' ''multi-platform.yml'' ''main'',
       Call_ListArtifacts ''o'' ''r''],
      Inl NilPointerDereference)\<close>
  by (simp add: main_def example_env_def example_client_def GetRunID_def Let_def)

end
